theory Spec2Isabelle
  imports Complex_Main "HOL-Library.AList"
begin

section \<open>The form generator of Form.tsx\<close>

text \<open>
  The component \<open>Form\<close> of \<^verbatim>\<open>src/my-project/src/Components/Form.tsx\<close> keeps seven
  pieces of state and has four pieces of logic: the effect that parses the editor text
  (lines 57-76), \<open>handleInputChange\<close> (78-81), \<open>validateField\<close> (83-107) and
  \<open>handleSubmit\<close> (109-131). Each is embedded below as a function on an explicit
  state record.

  Strings are \<open>string\<close>: a list of code units, so that \<open>length\<close> is the
  \<^verbatim>\<open>.length\<close> of the source (the code units here are the 256 values of \<open>char\<close>).
  A \<^verbatim>\<open>Record<string, string>\<close> is an association list in insertion order, read with
  \<open>map_of\<close> and written with \<open>AList.update\<close>, which replaces the value of a key in place
  and appends a new key, as an object spread followed by a computed key does. This is the
  record of a plain object for the keys that are not names of \<^verbatim>\<open>Object.prototype\<close> (see
  \<open>Object_prototype_names\<close> below): reading such a name from a plain object that has no
  own entry for it yields the inherited property, not \<^verbatim>\<open>undefined\<close>.
\<close>

subsection \<open>Values of the platform\<close>

text \<open>
  What a \<^verbatim>\<open>catch\<close> clause can receive: an instance of \<^verbatim>\<open>Error\<close> with its message, or
  any other value (line 73 tells the two apart).
\<close>

datatype thrown = Error string | NonError

text \<open>
  A value returned by \<^verbatim>\<open>JSON.parse\<close>. The members of an object are its own properties
  (the parser keeps the last of two members with one name, so names are distinct).
\<close>

datatype json =
    JNull
  | JBool bool
  | JNumber real
  | JString string
  | JArray "json list"
  | JObject "(string \<times> json) list"

text \<open>
  \<^verbatim>\<open>parsed.name\<close>: reading a property of \<^verbatim>\<open>null\<close> throws a \<^verbatim>\<open>TypeError\<close>; on every other
  value the read yields the member, or \<^verbatim>\<open>undefined\<close> (here \<open>None\<close>). The text of the
  message of that \<^verbatim>\<open>TypeError\<close> is the engine's own. The one written here is V8's, to have
  a value; no statement below says what it is, and the statement of what the parser
  accepts leaves the value \<^verbatim>\<open>null\<close> aside.
\<close>

definition null_property_message :: "string \<Rightarrow> string" where
  "null_property_message name =
     ''Cannot read properties of null (reading '' @ [CHR 0x27] @ name @ [CHR 0x27] @ '')''"

fun get_property :: "json \<Rightarrow> string \<Rightarrow> thrown + json option" where
  "get_property JNull name = Inl (Error (null_property_message name))"
| "get_property (JObject members) name = Inr (map_of members name)"
| "get_property _ name = Inr None"

text \<open>Truthiness of a value that may be \<^verbatim>\<open>undefined\<close>, as \<^verbatim>\<open>!x\<close> and \<^verbatim>\<open>&&\<close> test it.\<close>

fun truthy :: "json option \<Rightarrow> bool" where
  "truthy None = False"
| "truthy (Some JNull) = False"
| "truthy (Some (JBool b)) = b"
| "truthy (Some (JNumber n)) = (n \<noteq> 0)"
| "truthy (Some (JString s)) = (s \<noteq> [])"
| "truthy (Some (JArray xs)) = True"
| "truthy (Some (JObject members)) = True"

fun isArray :: "json option \<Rightarrow> bool" where
  "isArray (Some (JArray xs)) = True"
| "isArray _ = False"

text \<open>
  The property names every plain object inherits from \<^verbatim>\<open>Object.prototype\<close>. A field whose id
  is one of them is outside what the association lists model.
\<close>

definition Object_prototype_names :: "string list" where
  "Object_prototype_names =
     [''constructor'', ''hasOwnProperty'', ''isPrototypeOf'', ''propertyIsEnumerable'',
      ''toLocaleString'', ''toString'', ''valueOf'', ''__proto__'', ''__defineGetter__'',
      ''__defineSetter__'', ''__lookupGetter__'', ''__lookupSetter__'']"

text \<open>
  \<^verbatim>\<open>String.prototype.trim\<close> removes white space and line terminators from both ends.
  Of the code points ECMAScript lists, these are the ones a \<open>char\<close> can hold: TAB, LF,
  VT, FF, CR, SP and NBSP.
\<close>

definition is_white_space :: "char \<Rightarrow> bool" where
  "is_white_space c =
     (c \<in> set [CHR 0x09, CHR 0x0A, CHR 0x0B, CHR 0x0C, CHR 0x0D, CHR 0x20, CHR 0xA0])"

definition trim :: "string \<Rightarrow> string" where
  "trim s = rev (dropWhile is_white_space (rev (dropWhile is_white_space s)))"

text \<open>
  Template literals print a number. For a safe integer, one of magnitude at most
  \<^verbatim>\<open>2^53 - 1\<close>, which a number holds exactly, that is its decimal numeral, with a minus
  sign when negative; \<open>show_int\<close> is the print of the safe integers only (from \<^verbatim>\<open>1e21\<close> on
  a number is printed with an exponent). A statement that says what message a length rule
  gives is about lengths that are safe integers.
\<close>

definition safe_integer :: "int \<Rightarrow> bool" where
  "safe_integer n = (- 9007199254740991 \<le> n \<and> n \<le> 9007199254740991)"

fun show_nat :: "nat \<Rightarrow> string" where
  "show_nat n =
     (if n < 10 then [''0123456789'' ! n]
      else show_nat (n div 10) @ [''0123456789'' ! (n mod 10)])"

definition show_int :: "int \<Rightarrow> string" where
  "show_int i = (if i < 0 then CHR ''-'' # show_nat (nat (- i)) else show_nat (nat i))"

subsection \<open>The data model (lines 18-46)\<close>

datatype FieldType = FT_text | FT_number | FT_email | FT_select | FT_textarea | FT_radio

record FormOption =
  option_value :: string
  option_label :: string

text \<open>
  An optional member is an \<open>option\<close>: \<open>None\<close> when the member is absent. Five members
  are renamed, their names being taken in HOL: \<open>min_number\<close> and \<open>max_number\<close> are
  \<^verbatim>\<open>min\<close> and \<^verbatim>\<open>max\<close> of \<^verbatim>\<open>FormValidation\<close>, \<open>field_id\<close> and \<open>field_type\<close> are \<^verbatim>\<open>id\<close>
  and \<^verbatim>\<open>type\<close> of \<^verbatim>\<open>FormField\<close>, \<open>form_fields\<close> is \<^verbatim>\<open>fields\<close> of \<^verbatim>\<open>FormSchema\<close>. The
  lengths are integers, as the data model of the specification has them; a length that is
  not an integer has no counterpart here.
\<close>

record FormValidation =
  pattern :: "string option"
  message :: "string option"
  min_number :: "real option"
  max_number :: "real option"
  minLength :: "int option"
  maxLength :: "int option"

record FormField =
  field_id :: string
  field_type :: FieldType
  label :: string
  required :: "bool option"
  placeholder :: "string option"
  options :: "FormOption list option"
  validation :: "FormValidation option"

record FormSchema =
  formTitle :: string
  formDescription :: "string option"
  form_fields :: "FormField list"

text \<open>The seven \<^verbatim>\<open>useState\<close> cells of the component (lines 49-55).\<close>

record FormState =
  jsonInput :: string
  formSchema :: "FormSchema option"
  jsonError :: "string option"
  formData :: "(string \<times> string) list"
  formErrors :: "(string \<times> string) list"
  isSubmitted :: bool
  isSubmitting :: bool

subsection \<open>The field validator (lines 83-107)\<close>

text \<open>
  The regular expression engine is a parameter \<open>RegExp_test\<close>: \<open>RegExp_test p v\<close> is
  \<^verbatim>\<open>new RegExp(p).test(v)\<close>, either the \<^verbatim>\<open>SyntaxError\<close> the constructor throws on an
  ill-formed pattern or the answer of the test.

  Lines 87-101 compute the local \<^verbatim>\<open>error\<close>. Each of the three \<^verbatim>\<open>if\<close> statements of lines
  92-100 maps the \<^verbatim>\<open>error\<close> before it to the \<^verbatim>\<open>error\<close> after it; \<^verbatim>\<open>&&\<close> tests the
  truthiness of its left operand, so an empty pattern, an empty message and a length of
  \<open>0\<close> count as absent.
\<close>

definition pattern_rule ::
  "(string \<Rightarrow> string \<Rightarrow> thrown + bool) \<Rightarrow> FormValidation \<Rightarrow> string \<Rightarrow> string \<Rightarrow> thrown + string"
where
  "pattern_rule RegExp_test vld val error =
     (case pattern vld of
        None \<Rightarrow> Inr error
      | Some p \<Rightarrow>
          if p = [] then Inr error
          else (case RegExp_test p val of
                  Inl t \<Rightarrow> Inl t
                | Inr matched \<Rightarrow>
                    if matched then Inr error
                    else Inr (case message vld of
                                None \<Rightarrow> ''Invalid format''
                              | Some m \<Rightarrow> if m = [] then ''Invalid format'' else m)))"

definition minLength_rule :: "FormValidation \<Rightarrow> string \<Rightarrow> string \<Rightarrow> string" where
  "minLength_rule vld val error =
     (case minLength vld of
        None \<Rightarrow> error
      | Some n \<Rightarrow>
          if n \<noteq> 0 \<and> int (length val) < n then ''Minimum length is '' @ show_int n
          else error)"

definition maxLength_rule :: "FormValidation \<Rightarrow> string \<Rightarrow> string \<Rightarrow> string" where
  "maxLength_rule vld val error =
     (case maxLength vld of
        None \<Rightarrow> error
      | Some n \<Rightarrow>
          if n \<noteq> 0 \<and> n < int (length val) then ''Maximum length is '' @ show_int n
          else error)"

definition validateField_error ::
  "(string \<Rightarrow> string \<Rightarrow> thrown + bool) \<Rightarrow> FormField \<Rightarrow> string \<Rightarrow> thrown + string"
where
  "validateField_error RegExp_test field val =
     (if required field = Some True \<and> val = [] then Inr ''This field is required''
      else (case validation field of
              None \<Rightarrow> Inr []
            | Some vld \<Rightarrow>
                (case pattern_rule RegExp_test vld val [] of
                   Inl t \<Rightarrow> Inl t
                 | Inr error \<Rightarrow>
                     Inr (maxLength_rule vld val (minLength_rule vld val error)))))"

text \<open>Line 84: the first field of the schema with the given id, if there is a schema.\<close>

definition find_field :: "FormState \<Rightarrow> string \<Rightarrow> FormField option" where
  "find_field s i =
     (case formSchema s of
        None \<Rightarrow> None
      | Some schema \<Rightarrow> find (\<lambda>f. field_id f = i) (form_fields schema))"

text \<open>
  \<open>validateField\<close> returns the state after its one update of \<^verbatim>\<open>formErrors\<close> (lines
  103-106), or the value thrown; it throws before it updates anything.
\<close>

definition validateField ::
  "(string \<Rightarrow> string \<Rightarrow> thrown + bool) \<Rightarrow> FormState \<Rightarrow> string \<Rightarrow> string \<Rightarrow> thrown + FormState"
where
  "validateField RegExp_test s i val =
     (case find_field s i of
        None \<Rightarrow> Inr s
      | Some field \<Rightarrow>
          (case validateField_error RegExp_test field val of
             Inl t \<Rightarrow> Inl t
           | Inr error \<Rightarrow> Inr (s\<lparr>formErrors := AList.update i error (formErrors s)\<rparr>)))"

text \<open>
  Lines 78-81. The handler returns the state after the updates it queued, and the value
  it threw if it did. The updates of one handler are applied in the order of the calls,
  each to the state the one before it left; a handler reads \<^verbatim>\<open>formSchema\<close> and \<^verbatim>\<open>formData\<close>
  as they were when it started, and no handler here reads a cell after writing it, so
  passing the state along gives the same result.
\<close>

definition handleInputChange ::
  "(string \<Rightarrow> string \<Rightarrow> thrown + bool) \<Rightarrow> FormState \<Rightarrow> string \<Rightarrow> string
     \<Rightarrow> FormState \<times> thrown option"
where
  "handleInputChange RegExp_test s i val =
     (let s1 = s\<lparr>formData := AList.update i val (formData s)\<rparr>
      in case validateField RegExp_test s1 i val of
           Inl t \<Rightarrow> (s1, Some t)
         | Inr s2 \<Rightarrow> (s2, None))"

subsection \<open>Submission (lines 109-131)\<close>

text \<open>
  The loop of lines 114-120 over the fields, with the state and \<^verbatim>\<open>newErrors\<close> passed
  along. A throw ends it, with the state the earlier iterations left. Line 115 reads a
  plain object and line 118 writes one: the loop is that of the source for the fields
  whose id is not among \<open>Object_prototype_names\<close>.
\<close>

fun forEach_field ::
  "(string \<Rightarrow> string \<Rightarrow> thrown + bool) \<Rightarrow> FormField list \<Rightarrow> FormState \<Rightarrow> (string \<times> string) list
     \<Rightarrow> thrown \<times> FormState + FormState \<times> (string \<times> string) list"
where
  "forEach_field RegExp_test [] s newErrors = Inr (s, newErrors)"
| "forEach_field RegExp_test (field # rest) s newErrors =
     (let val = (case map_of (formData s) (field_id field) of None \<Rightarrow> [] | Some x \<Rightarrow> x)
      in case validateField RegExp_test s (field_id field) val of
           Inl t \<Rightarrow> Inl (t, s)
         | Inr s' \<Rightarrow>
             forEach_field RegExp_test rest s'
               (if required field = Some True \<and> val = []
                then AList.update (field_id field) ''This field is required'' newErrors
                else newErrors))"

text \<open>
  How the synchronous part of \<open>handleSubmit\<close> ends: at line 127-130 with the submission
  given up, at the \<^verbatim>\<open>await\<close> of line 123 with a timer of so many milliseconds pending and
  the \<^verbatim>\<open>formData\<close> the handler closed over, or with a value thrown.
\<close>

datatype submit_outcome =
    Aborted
  | Awaiting nat "(string \<times> string) list"
  | Uncaught thrown

definition handleSubmit ::
  "(string \<Rightarrow> string \<Rightarrow> thrown + bool) \<Rightarrow> FormState \<Rightarrow> FormState \<times> submit_outcome"
where
  "handleSubmit RegExp_test s =
     (let s1 = s\<lparr>isSubmitting := True\<rparr>
      in case forEach_field RegExp_test
                (case formSchema s of None \<Rightarrow> [] | Some schema \<Rightarrow> form_fields schema) s1 [] of
           Inl (t, s2) \<Rightarrow> (s2, Uncaught t)
         | Inr (s2, newErrors) \<Rightarrow>
             if length (map fst newErrors) = 0 then (s2, Awaiting 1000 (formData s))
             else (s2\<lparr>formErrors := newErrors, isSubmitting := False\<rparr>, Aborted))"

text \<open>
  Lines 124-130 after the timer: the arguments of \<^verbatim>\<open>console.log\<close> and the two updates,
  applied to the state as it is by then.
\<close>

definition handleSubmit_resume ::
  "(string \<times> string) list \<Rightarrow> FormState \<Rightarrow> FormState \<times> string \<times> (string \<times> string) list"
where
  "handleSubmit_resume submitted s =
     (s\<lparr>isSubmitted := True, isSubmitting := False\<rparr>, ''Form submitted:'', submitted)"

subsection \<open>The schema parser (lines 57-76)\<close>

definition schema_format_message :: string where
  "schema_format_message =
     ''Invalid schema format. Must include \"formTitle\" and \"fields\" array.''"

text \<open>Lines 66-68: the test of the parsed value, which throws or lets the value pass.\<close>

definition check_schema :: "json \<Rightarrow> thrown + json" where
  "check_schema parsed =
     (case get_property parsed ''formTitle'' of
        Inl t \<Rightarrow> Inl t
      | Inr title \<Rightarrow>
          if \<not> truthy title then Inl (Error schema_format_message)
          else (case get_property parsed ''fields'' of
                  Inl t \<Rightarrow> Inl t
                | Inr fs \<Rightarrow>
                    if \<not> isArray fs then Inl (Error schema_format_message)
                    else Inr parsed))"

text \<open>
  The effect that runs when \<^verbatim>\<open>jsonInput\<close> has changed. \<^verbatim>\<open>JSON.parse\<close> is the parameter
  \<open>JSON_parse\<close> (the value parsed, or what it throws), and the type assertion
  \<^verbatim>\<open>as FormSchema\<close> of line 65, which checks nothing, is the parameter \<open>as_FormSchema\<close>: the
  typed view of the value stored.
\<close>

definition useEffect_jsonInput ::
  "(string \<Rightarrow> thrown + json) \<Rightarrow> (json \<Rightarrow> FormSchema) \<Rightarrow> FormState \<Rightarrow> FormState"
where
  "useEffect_jsonInput JSON_parse as_FormSchema s =
     (if trim (jsonInput s) = [] then s\<lparr>formSchema := None, jsonError := None\<rparr>
      else (case (case JSON_parse (jsonInput s) of
                    Inl t \<Rightarrow> Inl t
                  | Inr parsed \<Rightarrow> check_schema parsed) of
              Inr parsed \<Rightarrow> s\<lparr>formSchema := Some (as_FormSchema parsed), jsonError := None\<rparr>
            | Inl t \<Rightarrow>
                s\<lparr>jsonError := Some (case t of Error m \<Rightarrow> m | NonError \<Rightarrow> ''Invalid JSON''),
                  formSchema := None\<rparr>))"

subsection \<open>The initial state and the values of the examples\<close>

text \<open>The initial values of the seven cells (lines 49-55).\<close>

definition initial_state :: FormState where
  "initial_state =
     \<lparr>jsonInput = [], formSchema = None, jsonError = None, formData = [], formErrors = [],
      isSubmitted = False, isSubmitting = False\<rparr>"

text \<open>
  The examples below are built from a validation object that declares no rule, a text
  field that has only its id and label, and a form of given fields and values.
\<close>

definition no_rules :: FormValidation where
  "no_rules =
     \<lparr>pattern = None, message = None, min_number = None, max_number = None,
      minLength = None, maxLength = None\<rparr>"

definition plain_field :: "string \<Rightarrow> FormField" where
  "plain_field i =
     \<lparr>field_id = i, field_type = FT_text, label = i, required = None, placeholder = None,
      options = None, validation = None\<rparr>"

definition form_with :: "FormField list \<Rightarrow> (string \<times> string) list \<Rightarrow> FormState" where
  "form_with fs data =
     initial_state
       \<lparr>formSchema := Some \<lparr>formTitle = ''T'', formDescription = None, form_fields = fs\<rparr>,
        formData := data\<rparr>"

text \<open>
  A regular expression engine for the examples. It knows the patterns made of an optional
  \<^verbatim>\<open>^\<close>, then characters and classes \<^verbatim>\<open>[a-z...]\<close>, each with an optional count \<^verbatim>\<open>{n}\<close>,
  then an optional \<^verbatim>\<open>$\<close>, and answers on them as \<^verbatim>\<open>new RegExp(p).test(v)\<close> does; every
  other pattern it takes for ill-formed. A pattern of this kind is a list of classes, one
  for each character of a match.
\<close>

type_synonym char_class = "(char \<times> char) list"

fun in_class :: "char_class \<Rightarrow> char \<Rightarrow> bool" where
  "in_class [] c = False"
| "in_class ((lo, hi) # rs) c =
     (((of_char lo :: nat) \<le> of_char c \<and> (of_char c :: nat) \<le> of_char hi) \<or> in_class rs c)"

text \<open>
  The reader of patterns is at the top level, where it knows whether a count may come
  next (it may after a character or a class, not after a count), inside a class, or
  inside a count.
\<close>

datatype pattern_mode = Top bool | InClass char_class | InCount "nat option"

definition digit_of :: "char \<Rightarrow> nat option" where
  "digit_of c =
     (if (48::nat) \<le> of_char c \<and> (of_char c :: nat) \<le> 57 then Some (of_char c - 48)
      else None)"

fun parse_pattern ::
  "pattern_mode \<Rightarrow> char_class list \<Rightarrow> string \<Rightarrow> (char_class list \<times> bool) option"
where
  "parse_pattern m acc [] = (case m of Top countable \<Rightarrow> Some (rev acc, False) | _ \<Rightarrow> None)"
| "parse_pattern m acc (c # r) =
     (case m of
        Top countable \<Rightarrow>
          if c = CHR ''$'' \<and> r = [] then Some (rev acc, True)
          else if c = CHR ''['' then parse_pattern (InClass []) acc r
          else if c = CHR ''{'' then
            (if countable then parse_pattern (InCount None) acc r else None)
          else if c \<in> set (CHR 0x5C # ''^$.*+?()[]{}|'') then None
          else parse_pattern (Top True) ([(c, c)] # acc) r
      | InClass rs \<Rightarrow>
          if c = CHR '']'' then
            (if rs = [] then None else parse_pattern (Top True) (rev rs # acc) r)
          else if c \<in> set (CHR 0x5C # ''^['') then None
          else (case r of
                  d # b # r' \<Rightarrow>
                    if d = CHR ''-'' \<and> b \<noteq> CHR '']'' then
                      (if (of_char c :: nat) \<le> of_char b
                       then parse_pattern (InClass ((c, b) # rs)) acc r'
                       else None)
                    else parse_pattern (InClass ((c, c) # rs)) acc r
                | _ \<Rightarrow> parse_pattern (InClass ((c, c) # rs)) acc r)
      | InCount n \<Rightarrow>
          if c = CHR ''}'' then
            (case (n, acc) of
               (Some k, cls # before) \<Rightarrow>
                 parse_pattern (Top False) (replicate k cls @ before) r
             | _ \<Rightarrow> None)
          else (case digit_of c of
                  None \<Rightarrow> None
                | Some d \<Rightarrow>
                    parse_pattern
                      (InCount (Some (10 * (case n of None \<Rightarrow> 0 | Some k \<Rightarrow> k) + d))) acc r))"

fun match_here :: "char_class list \<Rightarrow> string \<Rightarrow> string option" where
  "match_here [] s = Some s"
| "match_here (k # ks) [] = None"
| "match_here (k # ks) (c # s) = (if in_class k c then match_here ks s else None)"

definition match_at :: "char_class list \<Rightarrow> bool \<Rightarrow> string \<Rightarrow> bool" where
  "match_at ks to_end s =
     (case match_here ks s of
        None \<Rightarrow> False
      | Some rest \<Rightarrow> (if to_end then rest = [] else True))"

fun match_from :: "char_class list \<Rightarrow> bool \<Rightarrow> string \<Rightarrow> bool" where
  "match_from ks to_end [] = match_at ks to_end []"
| "match_from ks to_end (c # s) = (match_at ks to_end (c # s) \<or> match_from ks to_end s)"

definition RegExp_test_fragment :: "string \<Rightarrow> string \<Rightarrow> thrown + bool" where
  "RegExp_test_fragment p val =
     (case p of
        [] \<Rightarrow> Inr True
      | c # r \<Rightarrow>
          (case (if c = CHR ''^'' then parse_pattern (Top False) [] r
                 else parse_pattern (Top False) [] p) of
             None \<Rightarrow> Inl (Error (''Invalid regular expression: /'' @ p @ ''/''))
           | Some (ks, to_end) \<Rightarrow>
               Inr (if c = CHR ''^'' then match_at ks to_end val else match_from ks to_end val)))"

text \<open>
  \<^verbatim>\<open>JSON.parse\<close> on the texts of the examples, each with the value it denotes; every other
  text is taken for ill-formed. The typed view of the examples reads the title and the
  description; the arrays of fields of the examples are empty.
\<close>

definition JSON_parse_examples :: "string \<Rightarrow> thrown + json" where
  "JSON_parse_examples text =
     (case map_of
        [(''{\"formTitle\": \"T\", \"fields\": []}'',
            JObject [(''formTitle'', JString ''T''), (''fields'', JArray [])]),
         (''{\"title\": \"T\", \"fields\": []}'',
            JObject [(''title'', JString ''T''), (''fields'', JArray [])]),
         (''{\"formTitle\": 7, \"fields\": []}'',
            JObject [(''formTitle'', JNumber 7), (''fields'', JArray [])]),
         (''{\"formTitle\": \"\", \"fields\": []}'',
            JObject [(''formTitle'', JString []), (''fields'', JArray [])])] text of
        Some parsed \<Rightarrow> Inr parsed
      | None \<Rightarrow> Inl (Error ''Unexpected token''))"

definition example_view :: "json \<Rightarrow> FormSchema" where
  "example_view parsed =
     \<lparr>formTitle = (case get_property parsed ''formTitle'' of
                     Inr (Some (JString t)) \<Rightarrow> t
                   | _ \<Rightarrow> []),
      formDescription = (case get_property parsed ''formDescription'' of
                           Inr (Some (JString d)) \<Rightarrow> Some d
                         | _ \<Rightarrow> None),
      form_fields = []\<rparr>"

text \<open>
  The field of the specification's example, whose value must be five digits, and the same
  field made required and given both length rules.
\<close>

definition zip_rules :: FormValidation where
  "zip_rules = no_rules\<lparr>pattern := Some ''^[0-9]{5}$''\<rparr>"

definition zip_field :: FormField where
  "zip_field = (plain_field ''zip'')\<lparr>validation := Some zip_rules\<rparr>"

definition strict_zip_field :: FormField where
  "strict_zip_field =
     (plain_field ''zip'')
       \<lparr>required := Some True,
        validation := Some (zip_rules\<lparr>minLength := Some 5, maxLength := Some 5\<rparr>)\<rparr>"

subsection \<open>The rules as the specification words them\<close>

text \<open>
  The claims about the validator speak of a rule that is violated: the pattern is set and
  the value does not match it; \<^verbatim>\<open>minLength\<close> is set and the value is shorter;
  \<^verbatim>\<open>maxLength\<close> is set and the value is longer; the field is required and the value is
  empty. These predicates say that in the words of the specification, where a member is
  set when it is present. They are used in the statements only, to be compared with what
  \<open>validateField_error\<close> computes.
\<close>

definition required_violated :: "FormField \<Rightarrow> string \<Rightarrow> bool" where
  "required_violated field val = (required field = Some True \<and> val = [])"

definition pattern_violated ::
  "(string \<Rightarrow> string \<Rightarrow> thrown + bool) \<Rightarrow> FormValidation \<Rightarrow> string \<Rightarrow> bool"
where
  "pattern_violated RegExp_test vld val =
     (case pattern vld of None \<Rightarrow> False | Some p \<Rightarrow> RegExp_test p val = Inr False)"

text \<open>
  The pattern rule is satisfied when no pattern is set or the value matches the one that
  is. A pattern is usable when the constructor accepts it; the engine is then also asked to
  find that the empty pattern matches, as \<^verbatim>\<open>new RegExp("")\<close> does every string.
\<close>

definition pattern_satisfied ::
  "(string \<Rightarrow> string \<Rightarrow> thrown + bool) \<Rightarrow> FormValidation \<Rightarrow> string \<Rightarrow> bool"
where
  "pattern_satisfied RegExp_test vld val =
     (case pattern vld of None \<Rightarrow> True | Some p \<Rightarrow> RegExp_test p val = Inr True)"

definition pattern_usable ::
  "(string \<Rightarrow> string \<Rightarrow> thrown + bool) \<Rightarrow> FormValidation \<Rightarrow> string \<Rightarrow> bool"
where
  "pattern_usable RegExp_test vld val =
     (case pattern vld of
        None \<Rightarrow> True
      | Some p \<Rightarrow>
          (case RegExp_test p val of
             Inl t \<Rightarrow> False
           | Inr matched \<Rightarrow> (if p = [] then matched else True)))"

definition minLength_violated :: "FormValidation \<Rightarrow> string \<Rightarrow> bool" where
  "minLength_violated vld val =
     (case minLength vld of None \<Rightarrow> False | Some n \<Rightarrow> int (length val) < n)"

definition maxLength_violated :: "FormValidation \<Rightarrow> string \<Rightarrow> bool" where
  "maxLength_violated vld val =
     (case maxLength vld of None \<Rightarrow> False | Some n \<Rightarrow> n < int (length val))"

text \<open>The lengths a validation object declares are safe integers.\<close>

definition lengths_safe :: "FormValidation \<Rightarrow> bool" where
  "lengths_safe vld =
     ((case minLength vld of None \<Rightarrow> True | Some n \<Rightarrow> safe_integer n)
      \<and> (case maxLength vld of None \<Rightarrow> True | Some n \<Rightarrow> safe_integer n))"

definition field_ids_plain :: "FormState \<Rightarrow> bool" where
  "field_ids_plain s =
     (case formSchema s of
        None \<Rightarrow> True
      | Some schema \<Rightarrow>
          list_all (\<lambda>f. field_id f \<notin> set Object_prototype_names) (form_fields schema))"

text \<open>
  What the claim about the parser asks of the parsed value, with the names the code uses:
  an object whose member \<^verbatim>\<open>formTitle\<close> is truthy and whose member \<^verbatim>\<open>fields\<close> is an array.
\<close>

definition has_formTitle_and_fields :: "json \<Rightarrow> bool" where
  "has_formTitle_and_fields parsed =
     (case parsed of
        JObject members \<Rightarrow>
          truthy (map_of members ''formTitle'') \<and> isArray (map_of members ''fields'')
      | _ \<Rightarrow> False)"

section \<open>Properties\<close>

subsection \<open>Auxiliary facts\<close>

lemma trim_eq_Nil: "trim s = [] \<longleftrightarrow> (\<forall>c\<in>set s. is_white_space c)"
proof
  assume "trim s = []"
  then have blank: "dropWhile is_white_space (rev (dropWhile is_white_space s)) = []"
    by (simp add: trim_def)
  show "\<forall>c\<in>set s. is_white_space c"
  proof (cases "dropWhile is_white_space s")
    case Nil
    then show ?thesis by (simp add: dropWhile_eq_Nil_conv)
  next
    case (Cons c cs)
    then have "\<not> is_white_space c"
      using hd_dropWhile [of is_white_space s] by simp
    moreover from blank Cons have "is_white_space c"
      by (simp add: dropWhile_eq_Nil_conv)
    ultimately show ?thesis by simp
  qed
next
  assume "\<forall>c\<in>set s. is_white_space c"
  then show "trim s = []" by (auto simp: trim_def dest: set_dropWhileD)
qed

lemma map_of_update_same: "map_of (AList.update k v al) k = Some v"
  by (simp add: update_conv')

lemma pattern_rule_min_max:
  "pattern_rule R (vld\<lparr>min_number := a, max_number := b\<rparr>) val e = pattern_rule R vld val e"
  by (simp add: pattern_rule_def split: option.split sum.split)

lemma minLength_rule_min_max:
  "minLength_rule (vld\<lparr>min_number := a, max_number := b\<rparr>) val e = minLength_rule vld val e"
  by (simp add: minLength_rule_def)

lemma maxLength_rule_min_max:
  "maxLength_rule (vld\<lparr>min_number := a, max_number := b\<rparr>) val e = maxLength_rule vld val e"
  by (simp add: maxLength_rule_def)

lemma validateField_error_min_max:
  "validateField_error R (field\<lparr>validation := Some (vld\<lparr>min_number := a, max_number := b\<rparr>)\<rparr>) val
     = validateField_error R (field\<lparr>validation := Some vld\<rparr>) val"
  by (simp add: validateField_error_def pattern_rule_min_max minLength_rule_min_max
      maxLength_rule_min_max cong: sum.case_cong)

lemma validateField_error_only_min_max:
  "validateField_error R
       (field\<lparr>validation := Some (no_rules\<lparr>min_number := a, max_number := b\<rparr>)\<rparr>) val
     = validateField_error R (field\<lparr>validation := None\<rparr>) val"
  by (simp add: validateField_error_def pattern_rule_def minLength_rule_def maxLength_rule_def
      no_rules_def)

lemma pattern_rule_violated:
  assumes "pattern_violated R vld val" and "pattern_usable R vld val"
  shows "pattern_rule R vld val e =
    Inr (case message vld of None \<Rightarrow> ''Invalid format''
         | Some m \<Rightarrow> if m = [] then ''Invalid format'' else m)"
  using assms
  by (auto simp: pattern_violated_def pattern_usable_def pattern_rule_def split: option.splits)

lemma pattern_rule_usable:
  assumes "pattern_usable R vld val"
  shows "\<exists>e'. pattern_rule R vld val e = Inr e'"
  using assms
  by (auto simp: pattern_usable_def pattern_rule_def split: option.splits sum.splits)

text \<open>What the engine of the examples answers on the patterns and values used below.\<close>

lemma fragment_zip_1234: "RegExp_test_fragment ''^[0-9]{5}$'' ''1234'' = Inr False"
  by code_simp

lemma fragment_zip_12345: "RegExp_test_fragment ''^[0-9]{5}$'' ''12345'' = Inr True"
  by code_simp

lemma fragment_zip_ab: "RegExp_test_fragment ''^[0-9]{5}$'' ''ab'' = Inr False"
  by code_simp

lemma fragment_zip_abcdef: "RegExp_test_fragment ''^[0-9]{5}$'' ''abcdef'' = Inr False"
  by code_simp

lemma fragment_open_paren:
  "RegExp_test_fragment ''('' ''ab'' = Inl (Error ''Invalid regular expression: /(/'')"
  by code_simp

lemma trim_eq_Nil_list_all: "trim s = [] \<longleftrightarrow> list_all is_white_space s"
  by (simp add: trim_eq_Nil list_all_iff)

lemma check_schema_cases:
  assumes "parsed \<noteq> JNull"
  shows "check_schema parsed =
     (if has_formTitle_and_fields parsed then Inr parsed
      else Inl (Error schema_format_message))"
proof (cases parsed)
  case JNull
  with assms show ?thesis by simp
next
  case (JObject members)
  show ?thesis
  proof (cases "truthy (map_of members ''formTitle'')")
    case True
    with JObject show ?thesis
      by (simp add: check_schema_def has_formTitle_and_fields_def)
  next
    case False
    with JObject show ?thesis
      by (simp add: check_schema_def has_formTitle_and_fields_def)
  qed
qed (simp_all add: check_schema_def has_formTitle_and_fields_def)

text \<open>What \<^verbatim>\<open>JSON.parse\<close> returns on the texts of the examples.\<close>

lemma parse_formTitle_text:
  "JSON_parse_examples ''{\"formTitle\": \"T\", \"fields\": []}'' =
     Inr (JObject [(''formTitle'', JString ''T''), (''fields'', JArray [])])"
  by (simp add: JSON_parse_examples_def)

lemma parse_title_text:
  "JSON_parse_examples ''{\"title\": \"T\", \"fields\": []}'' =
     Inr (JObject [(''title'', JString ''T''), (''fields'', JArray [])])"
  by (simp add: JSON_parse_examples_def)

lemma parse_number_title_text:
  "JSON_parse_examples ''{\"formTitle\": 7, \"fields\": []}'' =
     Inr (JObject [(''formTitle'', JNumber 7), (''fields'', JArray [])])"
  by (simp add: JSON_parse_examples_def)

lemma parse_empty_title_text:
  "JSON_parse_examples ''{\"formTitle\": \"\", \"fields\": []}'' =
     Inr (JObject [(''formTitle'', JString []), (''fields'', JArray [])])"
  by (simp add: JSON_parse_examples_def)

lemma parse_ill_formed_text: "JSON_parse_examples ''{title'' = Inl (Error ''Unexpected token'')"
  by (simp add: JSON_parse_examples_def)

text \<open>
  \<open>validateField\<close> writes \<^verbatim>\<open>formErrors\<close> only, and an update never leaves a record empty; so
  \<^verbatim>\<open>newErrors\<close> is empty after the loop exactly when it was before and no field of the
  loop is required with an empty value.
\<close>

lemma validateField_frame:
  assumes "validateField R s i val = Inr s'"
  shows "formData s' = formData s \<and> formSchema s' = formSchema s"
  using assms by (auto simp: validateField_def split: option.splits sum.splits)

lemma update_not_Nil: "AList.update k v al \<noteq> []"
  by (cases al) auto

lemma forEach_field_newErrors:
  assumes "forEach_field R fs s errs = Inr (s', errs')"
  shows "(errs' = []) =
    (errs = [] \<and> \<not> (\<exists>f\<in>set fs. required f = Some True
        \<and> (case map_of (formData s) (field_id f) of None \<Rightarrow> [] | Some x \<Rightarrow> x) = []))"
  using assms
proof (induction fs arbitrary: s errs)
  case Nil
  then show ?case by simp
next
  case (Cons f fs)
  let ?val = "case map_of (formData s) (field_id f) of None \<Rightarrow> [] | Some x \<Rightarrow> x"
  from Cons.prems obtain s1 where
    v: "validateField R s (field_id f) ?val = Inr s1"
    and rest: "forEach_field R fs s1
        (if required f = Some True \<and> ?val = []
         then AList.update (field_id f) ''This field is required'' errs else errs) = Inr (s', errs')"
    by (auto simp: Let_def split: sum.splits)
  have same: "formData s1 = formData s"
    using validateField_frame [OF v] by simp
  show ?case
    using Cons.IH [OF rest] same by (auto simp: update_not_Nil)
qed

subsection \<open>The validator\<close>

text \<open>
  Claim C4. For a field whose \<^verbatim>\<open>required\<close> is true and an empty value, the validator
  yields exactly ``This field is required'', whatever pattern, \<^verbatim>\<open>minLength\<close> and
  \<^verbatim>\<open>maxLength\<close> the field declares and whatever the engine would answer; when the field
  is the one the id resolves to, that message is what \<open>validateField\<close> records under the
  id.
\<close>

theorem required_empty_yields_required_error:
  assumes "required field = Some True"
  shows "validateField_error R field [] = Inr ''This field is required''
    \<and> (find_field s i = Some field \<longrightarrow>
         validateField R s i [] =
           Inr (s\<lparr>formErrors := AList.update i ''This field is required'' (formErrors s)\<rparr>))"
  using assms by (simp add: validateField_error_def validateField_def)

text \<open>
  The theorem at the required five-digit field with both length rules, in a form that has
  this field only.
\<close>

theorem required_empty_yields_required_error_witness:
  "required strict_zip_field = Some True
   \<and> find_field (form_with [strict_zip_field] []) ''zip'' = Some strict_zip_field
   \<and> validateField_error RegExp_test_fragment strict_zip_field [] =
       Inr ''This field is required''
   \<and> validateField RegExp_test_fragment (form_with [strict_zip_field] []) ''zip'' [] =
       Inr ((form_with [strict_zip_field] [])
              \<lparr>formErrors := [(''zip'', ''This field is required'')]\<rparr>)"
  using required_empty_yields_required_error
    [of strict_zip_field RegExp_test_fragment "form_with [strict_zip_field] []" "''zip''"]
  by (simp add: find_field_def form_with_def initial_state_def strict_zip_field_def
      plain_field_def)

text \<open>
  Claim C5. The result of the validator does not depend on \<^verbatim>\<open>min\<close> and \<^verbatim>\<open>max\<close>: setting
  the two members of a validation object to any values, present or absent, leaves the
  result as it was, and a validation object that declares nothing but the two gives the
  result of a field with no validation object, so no message comes from them.
\<close>

theorem validator_ignores_min_max:
  "validateField_error R (field\<lparr>validation := Some (vld\<lparr>min_number := a, max_number := b\<rparr>)\<rparr>) val
     = validateField_error R (field\<lparr>validation := Some vld\<rparr>) val
   \<and> validateField_error R
         (field\<lparr>validation := Some (no_rules\<lparr>min_number := a, max_number := b\<rparr>)\<rparr>) val
     = validateField_error R (field\<lparr>validation := None\<rparr>) val"
  using validateField_error_min_max validateField_error_only_min_max by blast

text \<open>
  Claim C10. When there is no schema, or the schema has no field with the given id,
  \<open>validateField\<close> returns the state it was given: nothing is recorded.
\<close>

theorem validateField_without_field_is_noop:
  assumes "formSchema s = None
     \<or> (\<exists>schema. formSchema s = Some schema \<and> i \<notin> field_id ` set (form_fields schema))"
  shows "validateField R s i val = Inr s"
proof -
  have "find_field s i = None"
    using assms by (auto simp: find_field_def find_None_iff)
  then show ?thesis by (simp add: validateField_def)
qed

text \<open>The theorem in the initial state, and in a form of one field at another id.\<close>

theorem validateField_without_field_is_noop_witness:
  "formSchema initial_state = None
   \<and> validateField RegExp_test_fragment initial_state ''a'' ''x'' = Inr initial_state
   \<and> formSchema (form_with [plain_field ''a''] []) =
        Some \<lparr>formTitle = ''T'', formDescription = None, form_fields = [plain_field ''a'']\<rparr>
   \<and> ''b'' \<notin> field_id ` set [plain_field ''a'']
   \<and> validateField RegExp_test_fragment (form_with [plain_field ''a''] []) ''b'' ''x'' =
        Inr (form_with [plain_field ''a''] [])"
  using validateField_without_field_is_noop
      [of initial_state "''a''" RegExp_test_fragment "''x''"]
    validateField_without_field_is_noop
      [of "form_with [plain_field ''a''] []" "''b''" RegExp_test_fragment "''x''"]
  by (simp add: form_with_def initial_state_def plain_field_def)

text \<open>
  Claim C8. When the value satisfies every rule the field declares (the field is not
  required with an empty value, the value matches the pattern if one is set, and it is
  within \<^verbatim>\<open>minLength\<close> and \<^verbatim>\<open>maxLength\<close> if they are set), the validator yields the empty
  error; when the field is the one the id resolves to, \<open>validateField\<close> records the empty
  error under the id, whatever was recorded there before.
\<close>

theorem valid_value_clears_error:
  assumes "\<not> required_violated field val"
    and "case validation field of
           None \<Rightarrow> True
         | Some vld \<Rightarrow>
             pattern_satisfied R vld val \<and> \<not> minLength_violated vld val
             \<and> \<not> maxLength_violated vld val"
  shows "validateField_error R field val = Inr []
    \<and> (find_field s i = Some field \<longrightarrow>
         validateField R s i val = Inr (s\<lparr>formErrors := AList.update i [] (formErrors s)\<rparr>)
         \<and> map_of (AList.update i [] (formErrors s)) i = Some [])"
proof -
  have err: "validateField_error R field val = Inr []"
  proof (cases "validation field")
    case None
    with assms(1) show ?thesis
      by (simp add: validateField_error_def required_violated_def)
  next
    case (Some vld)
    with assms(2) have p: "pattern_satisfied R vld val"
      and mn: "\<not> minLength_violated vld val" and mx: "\<not> maxLength_violated vld val"
      by simp_all
    from p have "pattern_rule R vld val [] = Inr []"
      by (simp add: pattern_satisfied_def pattern_rule_def split: option.splits)
    moreover from mn have "minLength_rule vld val [] = []"
      by (simp add: minLength_violated_def minLength_rule_def split: option.splits)
    moreover from mx have "maxLength_rule vld val [] = []"
      by (simp add: maxLength_violated_def maxLength_rule_def split: option.splits)
    ultimately show ?thesis
      using assms(1) Some by (simp add: validateField_error_def required_violated_def)
  qed
  then show ?thesis
    by (simp add: validateField_def map_of_update_same)
qed

text \<open>
  The theorem at the required five-digit field and the value \<^verbatim>\<open>12345\<close>, in a form where
  ``Invalid format'' was recorded for the field.
\<close>

theorem valid_value_clears_error_witness:
  "\<not> required_violated strict_zip_field ''12345''
   \<and> validation strict_zip_field = Some (zip_rules\<lparr>minLength := Some 5, maxLength := Some 5\<rparr>)
   \<and> pattern_satisfied RegExp_test_fragment
        (zip_rules\<lparr>minLength := Some 5, maxLength := Some 5\<rparr>) ''12345''
   \<and> \<not> minLength_violated (zip_rules\<lparr>minLength := Some 5, maxLength := Some 5\<rparr>) ''12345''
   \<and> \<not> maxLength_violated (zip_rules\<lparr>minLength := Some 5, maxLength := Some 5\<rparr>) ''12345''
   \<and> validateField_error RegExp_test_fragment strict_zip_field ''12345'' = Inr []
   \<and> validateField RegExp_test_fragment
        ((form_with [strict_zip_field] [(''zip'', ''12345'')])
           \<lparr>formErrors := [(''zip'', ''Invalid format'')]\<rparr>)
        ''zip'' ''12345'' =
       Inr ((form_with [strict_zip_field] [(''zip'', ''12345'')])\<lparr>formErrors := [(''zip'', [])]\<rparr>)"
proof -
  have h1: "\<not> required_violated strict_zip_field ''12345''"
    by (simp add: required_violated_def)
  have h2: "case validation strict_zip_field of
           None \<Rightarrow> True
         | Some vld \<Rightarrow>
             pattern_satisfied RegExp_test_fragment vld ''12345''
             \<and> \<not> minLength_violated vld ''12345'' \<and> \<not> maxLength_violated vld ''12345''"
    by (simp add: strict_zip_field_def zip_rules_def no_rules_def pattern_satisfied_def
        minLength_violated_def maxLength_violated_def fragment_zip_12345)
  show ?thesis
    using valid_value_clears_error [OF h1 h2,
        of "(form_with [strict_zip_field] [(''zip'', ''12345'')])
              \<lparr>formErrors := [(''zip'', ''Invalid format'')]\<rparr>" "''zip''"]
      h1 h2
    by (simp add: strict_zip_field_def zip_rules_def no_rules_def pattern_satisfied_def
        minLength_violated_def maxLength_violated_def fragment_zip_12345 find_field_def
        form_with_def initial_state_def plain_field_def)
qed

text \<open>
  Claim C7, as amended. When the pattern is set and the value does not match it, the field
  is not required with an empty value and neither length rule is violated, the validator
  yields \<^verbatim>\<open>validation.message\<close> when that is present and not empty, and ``Invalid format''
  otherwise. (The engine matches every value against the empty pattern.)
\<close>

theorem pattern_mismatch_yields_message:
  assumes "validation field = Some vld"
    and "pattern_violated R vld val" and "pattern_usable R vld val"
    and "\<not> required_violated field val"
    and "\<not> minLength_violated vld val" and "\<not> maxLength_violated vld val"
  shows "validateField_error R field val =
    Inr (case message vld of None \<Rightarrow> ''Invalid format''
         | Some m \<Rightarrow> if m = [] then ''Invalid format'' else m)"
proof -
  have "minLength_rule vld val e = e" for e
    using assms(5) by (simp add: minLength_violated_def minLength_rule_def split: option.splits)
  moreover have "maxLength_rule vld val e = e" for e
    using assms(6) by (simp add: maxLength_violated_def maxLength_rule_def split: option.splits)
  ultimately show ?thesis
    using assms(1,4) pattern_rule_violated [OF assms(2,3)]
    by (auto simp: validateField_error_def required_violated_def)
qed

text \<open>
  The theorem at the example of the specification: the pattern \<^verbatim>\<open>^[0-9]{5}$\<close> and the
  value \<^verbatim>\<open>1234\<close>, without a message and with one.
\<close>

theorem pattern_mismatch_yields_message_witness:
  "validation zip_field = Some zip_rules
   \<and> pattern_violated RegExp_test_fragment zip_rules ''1234''
   \<and> pattern_usable RegExp_test_fragment zip_rules ''1234''
   \<and> \<not> required_violated zip_field ''1234''
   \<and> \<not> minLength_violated zip_rules ''1234''
   \<and> \<not> maxLength_violated zip_rules ''1234''
   \<and> validateField_error RegExp_test_fragment zip_field ''1234'' = Inr ''Invalid format''
   \<and> validateField_error RegExp_test_fragment
        (zip_field\<lparr>validation := Some (zip_rules\<lparr>message := Some ''Five digits''\<rparr>)\<rparr>) ''1234'' =
       Inr ''Five digits''"
  using pattern_mismatch_yields_message [of zip_field zip_rules RegExp_test_fragment "''1234''"]
    pattern_mismatch_yields_message
      [of "zip_field\<lparr>validation := Some (zip_rules\<lparr>message := Some ''Five digits''\<rparr>)\<rparr>"
          "zip_rules\<lparr>message := Some ''Five digits''\<rparr>" RegExp_test_fragment "''1234''"]
  by (simp add: zip_field_def zip_rules_def no_rules_def plain_field_def pattern_violated_def
      pattern_usable_def required_violated_def minLength_violated_def maxLength_violated_def
      fragment_zip_1234)

text \<open>
  Claim C7 as it was stated fails where the message is present and empty: line 93 falls
  back on ``Invalid format'' for every falsy message, so the validator does not yield
  \<^verbatim>\<open>validation.message\<close> there.
\<close>

theorem empty_message_counterexample:
  "validation (zip_field\<lparr>validation := Some (zip_rules\<lparr>message := Some []\<rparr>)\<rparr>) =
       Some (zip_rules\<lparr>message := Some []\<rparr>)
   \<and> message (zip_rules\<lparr>message := Some []\<rparr>) = Some []
   \<and> pattern_violated RegExp_test_fragment (zip_rules\<lparr>message := Some []\<rparr>) ''1234''
   \<and> \<not> required_violated
         (zip_field\<lparr>validation := Some (zip_rules\<lparr>message := Some []\<rparr>)\<rparr>) ''1234''
   \<and> \<not> minLength_violated (zip_rules\<lparr>message := Some []\<rparr>) ''1234''
   \<and> \<not> maxLength_violated (zip_rules\<lparr>message := Some []\<rparr>) ''1234''
   \<and> validateField_error RegExp_test_fragment
        (zip_field\<lparr>validation := Some (zip_rules\<lparr>message := Some []\<rparr>)\<rparr>) ''1234'' =
       Inr ''Invalid format''
   \<and> validateField_error RegExp_test_fragment
        (zip_field\<lparr>validation := Some (zip_rules\<lparr>message := Some []\<rparr>)\<rparr>) ''1234'' \<noteq>
       Inr []"
  by (simp add: zip_field_def zip_rules_def no_rules_def plain_field_def pattern_violated_def
      required_violated_def minLength_violated_def maxLength_violated_def
      validateField_error_def pattern_rule_def minLength_rule_def maxLength_rule_def
      fragment_zip_1234)

text \<open>
  Claim C3, as amended. When the field is not required with an empty value, its pattern
  (if any) is one the constructor accepts, its lengths are safe integers, its \<^verbatim>\<open>maxLength\<close>
  is not \<open>0\<close>, and at least two of the pattern, \<^verbatim>\<open>minLength\<close> and \<^verbatim>\<open>maxLength\<close> rules are
  violated, the validator yields
  the message of the last violated rule: ``Maximum length is \<open>n\<close>'' when \<^verbatim>\<open>maxLength\<close> is
  violated, and otherwise (the pattern and \<^verbatim>\<open>minLength\<close> being violated) ``Minimum length
  is \<open>n\<close>'', never the message of the pattern.
\<close>

theorem last_violated_rule_wins:
  assumes "\<not> required_violated field val" and "validation field = Some vld"
    and "pattern_usable R vld val" and "maxLength vld \<noteq> Some 0"
    and "lengths_safe vld"
    and "(pattern_violated R vld val \<and> minLength_violated vld val)
       \<or> (pattern_violated R vld val \<and> maxLength_violated vld val)
       \<or> (minLength_violated vld val \<and> maxLength_violated vld val)"
  shows "(maxLength_violated vld val \<longrightarrow>
            (\<exists>n. maxLength vld = Some n
               \<and> validateField_error R field val = Inr (''Maximum length is '' @ show_int n)))
    \<and> (\<not> maxLength_violated vld val \<longrightarrow>
            (\<exists>n. minLength vld = Some n
               \<and> validateField_error R field val = Inr (''Minimum length is '' @ show_int n)))"
proof -
  obtain e where e: "pattern_rule R vld val [] = Inr e"
    using pattern_rule_usable [OF assms(3)] by blast
  then have result: "validateField_error R field val =
      Inr (maxLength_rule vld val (minLength_rule vld val e))"
    using assms(1,2) by (auto simp: validateField_error_def required_violated_def)
  have mx: "\<exists>n. maxLength vld = Some n
      \<and> maxLength_rule vld val e' = ''Maximum length is '' @ show_int n"
    if "maxLength_violated vld val" for e'
    using that assms(4)
    by (auto simp: maxLength_violated_def maxLength_rule_def split: option.splits)
  have no_mx: "maxLength_rule vld val e' = e'" if "\<not> maxLength_violated vld val" for e'
    using that by (simp add: maxLength_violated_def maxLength_rule_def split: option.splits)
  have mn: "\<exists>n. minLength vld = Some n
      \<and> minLength_rule vld val e' = ''Minimum length is '' @ show_int n"
    if "minLength_violated vld val" for e'
    using that
    by (auto simp: minLength_violated_def minLength_rule_def split: option.splits)
  show ?thesis
  proof (intro conjI impI)
    assume "maxLength_violated vld val"
    then show "\<exists>n. maxLength vld = Some n
        \<and> validateField_error R field val = Inr (''Maximum length is '' @ show_int n)"
      using mx [of "minLength_rule vld val e"] result by simp
  next
    assume not_max: "\<not> maxLength_violated vld val"
    with assms(6) have "minLength_violated vld val" by blast
    then show "\<exists>n. minLength vld = Some n
        \<and> validateField_error R field val = Inr (''Minimum length is '' @ show_int n)"
      using mn [of e] no_mx [OF not_max] result by simp
  qed
qed

text \<open>
  The theorem at the five-digit field with lengths from 5 to 10 and the value \<^verbatim>\<open>ab\<close>
  (pattern and \<^verbatim>\<open>minLength\<close> violated), and with lengths from 8 to 3 and the value
  \<^verbatim>\<open>abcdef\<close> (all three violated).
\<close>

theorem last_violated_rule_wins_witness:
  "\<not> required_violated
        (zip_field\<lparr>validation := Some (zip_rules\<lparr>minLength := Some 5, maxLength := Some 10\<rparr>)\<rparr>)
        ''ab''
   \<and> validation
        (zip_field\<lparr>validation := Some (zip_rules\<lparr>minLength := Some 5, maxLength := Some 10\<rparr>)\<rparr>) =
       Some (zip_rules\<lparr>minLength := Some 5, maxLength := Some 10\<rparr>)
   \<and> pattern_usable RegExp_test_fragment
        (zip_rules\<lparr>minLength := Some 5, maxLength := Some 10\<rparr>) ''ab''
   \<and> maxLength (zip_rules\<lparr>minLength := Some 5, maxLength := Some 10\<rparr>) \<noteq> Some 0
   \<and> lengths_safe (zip_rules\<lparr>minLength := Some 5, maxLength := Some 10\<rparr>)
   \<and> pattern_violated RegExp_test_fragment
        (zip_rules\<lparr>minLength := Some 5, maxLength := Some 10\<rparr>) ''ab''
   \<and> minLength_violated (zip_rules\<lparr>minLength := Some 5, maxLength := Some 10\<rparr>) ''ab''
   \<and> \<not> maxLength_violated (zip_rules\<lparr>minLength := Some 5, maxLength := Some 10\<rparr>) ''ab''
   \<and> validateField_error RegExp_test_fragment
        (zip_field\<lparr>validation := Some (zip_rules\<lparr>minLength := Some 5, maxLength := Some 10\<rparr>)\<rparr>)
        ''ab'' = Inr ''Minimum length is 5''
   \<and> \<not> required_violated
        (zip_field\<lparr>validation := Some (zip_rules\<lparr>minLength := Some 8, maxLength := Some 3\<rparr>)\<rparr>)
        ''abcdef''
   \<and> validation
        (zip_field\<lparr>validation := Some (zip_rules\<lparr>minLength := Some 8, maxLength := Some 3\<rparr>)\<rparr>) =
       Some (zip_rules\<lparr>minLength := Some 8, maxLength := Some 3\<rparr>)
   \<and> pattern_usable RegExp_test_fragment
        (zip_rules\<lparr>minLength := Some 8, maxLength := Some 3\<rparr>) ''abcdef''
   \<and> maxLength (zip_rules\<lparr>minLength := Some 8, maxLength := Some 3\<rparr>) \<noteq> Some 0
   \<and> lengths_safe (zip_rules\<lparr>minLength := Some 8, maxLength := Some 3\<rparr>)
   \<and> pattern_violated RegExp_test_fragment
        (zip_rules\<lparr>minLength := Some 8, maxLength := Some 3\<rparr>) ''abcdef''
   \<and> minLength_violated (zip_rules\<lparr>minLength := Some 8, maxLength := Some 3\<rparr>) ''abcdef''
   \<and> maxLength_violated (zip_rules\<lparr>minLength := Some 8, maxLength := Some 3\<rparr>) ''abcdef''
   \<and> validateField_error RegExp_test_fragment
        (zip_field\<lparr>validation := Some (zip_rules\<lparr>minLength := Some 8, maxLength := Some 3\<rparr>)\<rparr>)
        ''abcdef'' = Inr ''Maximum length is 3''"
  using last_violated_rule_wins
      [of "zip_field\<lparr>validation := Some (zip_rules\<lparr>minLength := Some 5, maxLength := Some 10\<rparr>)\<rparr>"
          "''ab''" "zip_rules\<lparr>minLength := Some 5, maxLength := Some 10\<rparr>" RegExp_test_fragment]
    last_violated_rule_wins
      [of "zip_field\<lparr>validation := Some (zip_rules\<lparr>minLength := Some 8, maxLength := Some 3\<rparr>)\<rparr>"
          "''abcdef''" "zip_rules\<lparr>minLength := Some 8, maxLength := Some 3\<rparr>"
          RegExp_test_fragment]
  by (simp add: zip_field_def zip_rules_def no_rules_def plain_field_def pattern_violated_def
      pattern_usable_def required_violated_def minLength_violated_def maxLength_violated_def
      lengths_safe_def safe_integer_def fragment_zip_ab fragment_zip_abcdef show_int_def)

text \<open>
  Claim C3 as it was stated fails in two places. With \<^verbatim>\<open>minLength\<close> 5, \<^verbatim>\<open>maxLength\<close> 0 and
  the value \<^verbatim>\<open>ab\<close> both length rules are violated, and the validator yields the message
  of \<^verbatim>\<open>minLength\<close>, not of \<^verbatim>\<open>maxLength\<close>: the guard of line 98 takes a \<^verbatim>\<open>maxLength\<close> of 0
  for absent. With the pattern \<^verbatim>\<open>(\<close>, which no engine accepts, and both length rules
  violated, the validator yields no message: line 92 throws.
\<close>

theorem maxLength_zero_counterexample:
  "\<not> required_violated
        ((plain_field ''n'')
           \<lparr>validation := Some (no_rules\<lparr>minLength := Some 5, maxLength := Some 0\<rparr>)\<rparr>) ''ab''
   \<and> minLength_violated (no_rules\<lparr>minLength := Some 5, maxLength := Some 0\<rparr>) ''ab''
   \<and> maxLength_violated (no_rules\<lparr>minLength := Some 5, maxLength := Some 0\<rparr>) ''ab''
   \<and> validateField_error RegExp_test_fragment
        ((plain_field ''n'')
           \<lparr>validation := Some (no_rules\<lparr>minLength := Some 5, maxLength := Some 0\<rparr>)\<rparr>) ''ab'' =
       Inr ''Minimum length is 5''
   \<and> validateField_error RegExp_test_fragment
        ((plain_field ''n'')
           \<lparr>validation := Some (no_rules\<lparr>minLength := Some 5, maxLength := Some 0\<rparr>)\<rparr>) ''ab'' \<noteq>
       Inr ''Maximum length is 0''
   \<and> minLength_violated
        (no_rules\<lparr>pattern := Some ''('', minLength := Some 5, maxLength := Some 1\<rparr>) ''ab''
   \<and> maxLength_violated
        (no_rules\<lparr>pattern := Some ''('', minLength := Some 5, maxLength := Some 1\<rparr>) ''ab''
   \<and> validateField_error RegExp_test_fragment
        ((plain_field ''n'')
           \<lparr>validation :=
              Some (no_rules\<lparr>pattern := Some ''('', minLength := Some 5, maxLength := Some 1\<rparr>)\<rparr>)
        ''ab'' =
       Inl (Error ''Invalid regular expression: /(/'')"
  by (simp add: no_rules_def plain_field_def required_violated_def minLength_violated_def
      maxLength_violated_def validateField_error_def pattern_rule_def minLength_rule_def
      maxLength_rule_def show_int_def fragment_open_paren)

subsection \<open>The schema parser\<close>

text \<open>
  Claim C6. When the editor text is empty or all white space, the effect leaves no schema
  and no error. When the text is not, and \<^verbatim>\<open>JSON.parse\<close> throws, the effect leaves no schema
  and an error: the message of what was thrown if that is an \<^verbatim>\<open>Error\<close>, ``Invalid JSON''
  otherwise; the error is not the empty string unless the message thrown is.
\<close>

theorem parser_idle_and_parse_failure:
  "(list_all is_white_space (jsonInput s) \<longrightarrow>
      formSchema (useEffect_jsonInput P V s) = None
      \<and> jsonError (useEffect_jsonInput P V s) = None)
   \<and> (\<not> list_all is_white_space (jsonInput s) \<and> P (jsonInput s) = Inl t \<longrightarrow>
      formSchema (useEffect_jsonInput P V s) = None
      \<and> jsonError (useEffect_jsonInput P V s) =
          Some (case t of Error m \<Rightarrow> m | NonError \<Rightarrow> ''Invalid JSON'')
      \<and> (t \<noteq> Error [] \<longrightarrow> jsonError (useEffect_jsonInput P V s) \<noteq> Some []))"
proof (rule conjI; rule impI)
  assume "list_all is_white_space (jsonInput s)"
  then have "trim (jsonInput s) = []"
    by (simp add: trim_eq_Nil_list_all)
  then show "formSchema (useEffect_jsonInput P V s) = None
      \<and> jsonError (useEffect_jsonInput P V s) = None"
    by (simp add: useEffect_jsonInput_def)
next
  assume failed: "\<not> list_all is_white_space (jsonInput s) \<and> P (jsonInput s) = Inl t"
  then have "trim (jsonInput s) \<noteq> []"
    by (simp add: trim_eq_Nil_list_all)
  with failed have caught: "useEffect_jsonInput P V s =
      s\<lparr>jsonError := Some (case t of Error m \<Rightarrow> m | NonError \<Rightarrow> ''Invalid JSON''),
        formSchema := None\<rparr>"
    by (simp add: useEffect_jsonInput_def)
  then show "formSchema (useEffect_jsonInput P V s) = None
      \<and> jsonError (useEffect_jsonInput P V s) =
          Some (case t of Error m \<Rightarrow> m | NonError \<Rightarrow> ''Invalid JSON'')
      \<and> (t \<noteq> Error [] \<longrightarrow> jsonError (useEffect_jsonInput P V s) \<noteq> Some [])"
    by (cases t) simp_all
qed

text \<open>
  The theorem at a text of a space, a line feed and a tab, in a state that had a schema and
  an error, and at the text \<^verbatim>\<open>{title\<close>, which does not parse.
\<close>

theorem parser_idle_and_parse_failure_witness:
  "list_all is_white_space [CHR 0x20, CHR 0x0A, CHR 0x09]
   \<and> formSchema (useEffect_jsonInput JSON_parse_examples example_view
        ((form_with [] [])\<lparr>jsonInput := [CHR 0x20, CHR 0x0A, CHR 0x09],
           jsonError := Some ''Unexpected token''\<rparr>)) = None
   \<and> jsonError (useEffect_jsonInput JSON_parse_examples example_view
        ((form_with [] [])\<lparr>jsonInput := [CHR 0x20, CHR 0x0A, CHR 0x09],
           jsonError := Some ''Unexpected token''\<rparr>)) = None
   \<and> \<not> list_all is_white_space ''{title''
   \<and> JSON_parse_examples ''{title'' = Inl (Error ''Unexpected token'')
   \<and> Error ''Unexpected token'' \<noteq> Error []
   \<and> formSchema (useEffect_jsonInput JSON_parse_examples example_view
        ((form_with [] [])\<lparr>jsonInput := ''{title''\<rparr>)) = None
   \<and> jsonError (useEffect_jsonInput JSON_parse_examples example_view
        ((form_with [] [])\<lparr>jsonInput := ''{title''\<rparr>)) = Some ''Unexpected token''"
  using parser_idle_and_parse_failure
      [of "(form_with [] [])\<lparr>jsonInput := [CHR 0x20, CHR 0x0A, CHR 0x09],
             jsonError := Some ''Unexpected token''\<rparr>" JSON_parse_examples example_view]
    parser_idle_and_parse_failure
      [of "(form_with [] [])\<lparr>jsonInput := ''{title''\<rparr>" JSON_parse_examples example_view
          "Error ''Unexpected token''"]
  by (simp add: parse_ill_formed_text form_with_def initial_state_def is_white_space_def)

text \<open>
  Claim C2, as amended. When the editor text is not all white space and parses to a value
  other than \<^verbatim>\<open>null\<close>, the effect produces a schema and clears the error if and only if the
  parsed value is an object whose member \<^verbatim>\<open>formTitle\<close> is truthy (not \<^verbatim>\<open>null\<close>, \<^verbatim>\<open>false\<close>,
  \<open>0\<close> or the empty string) and whose member \<^verbatim>\<open>fields\<close> is an array; the schema is then the
  parsed value. Otherwise there is no schema and the error is exactly the message of line
  67, which names \<^verbatim>\<open>"formTitle"\<close> and \<^verbatim>\<open>"fields"\<close>.
\<close>

theorem parser_accepts_formTitle_and_fields:
  assumes "\<not> list_all is_white_space (jsonInput s)" and "P (jsonInput s) = Inr parsed"
    and "parsed \<noteq> JNull"
  shows "((formSchema (useEffect_jsonInput P V s) \<noteq> None
            \<and> jsonError (useEffect_jsonInput P V s) = None)
          = has_formTitle_and_fields parsed)
    \<and> (has_formTitle_and_fields parsed \<longrightarrow>
          formSchema (useEffect_jsonInput P V s) = Some (V parsed))
    \<and> (\<not> has_formTitle_and_fields parsed \<longrightarrow>
          formSchema (useEffect_jsonInput P V s) = None
          \<and> jsonError (useEffect_jsonInput P V s) = Some schema_format_message)"
  using assms
  by (simp add: useEffect_jsonInput_def trim_eq_Nil_list_all check_schema_cases)

text \<open>The theorem at a text with the members \<^verbatim>\<open>formTitle\<close> and \<^verbatim>\<open>fields\<close>.\<close>

theorem parser_accepts_formTitle_and_fields_witness:
  "\<not> list_all is_white_space ''{\"formTitle\": \"T\", \"fields\": []}''
   \<and> JSON_parse_examples ''{\"formTitle\": \"T\", \"fields\": []}'' =
        Inr (JObject [(''formTitle'', JString ''T''), (''fields'', JArray [])])
   \<and> JObject [(''formTitle'', JString ''T''), (''fields'', JArray [])] \<noteq> JNull
   \<and> has_formTitle_and_fields (JObject [(''formTitle'', JString ''T''), (''fields'', JArray [])])
   \<and> formSchema (useEffect_jsonInput JSON_parse_examples example_view
        (initial_state\<lparr>jsonInput := ''{\"formTitle\": \"T\", \"fields\": []}'',
           jsonError := Some ''Unexpected token''\<rparr>)) =
       Some \<lparr>formTitle = ''T'', formDescription = None, form_fields = []\<rparr>
   \<and> jsonError (useEffect_jsonInput JSON_parse_examples example_view
        (initial_state\<lparr>jsonInput := ''{\"formTitle\": \"T\", \"fields\": []}'',
           jsonError := Some ''Unexpected token''\<rparr>)) = None"
  using parser_accepts_formTitle_and_fields
    [of "initial_state\<lparr>jsonInput := ''{\"formTitle\": \"T\", \"fields\": []}'',
           jsonError := Some ''Unexpected token''\<rparr>"
        JSON_parse_examples
        "JObject [(''formTitle'', JString ''T''), (''fields'', JArray [])]" example_view]
  by (simp add: parse_formTitle_text has_formTitle_and_fields_def initial_state_def
      example_view_def is_white_space_def)

text \<open>
  Claim C2 as it was stated fails at the text \<^verbatim>\<open>{"title": "T", "fields": []}\<close>: the parsed
  value has a string member \<^verbatim>\<open>title\<close> and an array member \<^verbatim>\<open>fields\<close>, yet no schema is
  produced, and the error is not the text the claim gives. Further, a title that is the
  number 7 is accepted, and a title that is the empty string is not.
\<close>

theorem title_member_counterexample:
  "JSON_parse_examples ''{\"title\": \"T\", \"fields\": []}'' =
     Inr (JObject [(''title'', JString ''T''), (''fields'', JArray [])])
   \<and> formSchema (useEffect_jsonInput JSON_parse_examples example_view
        (initial_state\<lparr>jsonInput := ''{\"title\": \"T\", \"fields\": []}''\<rparr>)) = None
   \<and> jsonError (useEffect_jsonInput JSON_parse_examples example_view
        (initial_state\<lparr>jsonInput := ''{\"title\": \"T\", \"fields\": []}''\<rparr>)) =
       Some ''Invalid schema format. Must include \"formTitle\" and \"fields\" array.''
   \<and> ''Invalid schema format. Must include \"formTitle\" and \"fields\" array.'' \<noteq>
       ''Invalid schema format. Must include a form title and fields array.''
   \<and> JSON_parse_examples ''{\"formTitle\": 7, \"fields\": []}'' =
        Inr (JObject [(''formTitle'', JNumber 7), (''fields'', JArray [])])
   \<and> formSchema (useEffect_jsonInput JSON_parse_examples example_view
        (initial_state\<lparr>jsonInput := ''{\"formTitle\": 7, \"fields\": []}''\<rparr>)) =
       Some (example_view (JObject [(''formTitle'', JNumber 7), (''fields'', JArray [])]))
   \<and> JSON_parse_examples ''{\"formTitle\": \"\", \"fields\": []}'' =
        Inr (JObject [(''formTitle'', JString []), (''fields'', JArray [])])
   \<and> formSchema (useEffect_jsonInput JSON_parse_examples example_view
        (initial_state\<lparr>jsonInput := ''{\"formTitle\": \"\", \"fields\": []}''\<rparr>)) = None"
  by (simp add: useEffect_jsonInput_def trim_def is_white_space_def initial_state_def
      parse_title_text parse_number_title_text parse_empty_title_text
      check_schema_def schema_format_message_def)

text \<open>
  Claim C9. When the effect produces a schema, the state after it is the state before it
  with the new schema and no error: \<^verbatim>\<open>formData\<close> and \<^verbatim>\<open>formErrors\<close> are as they were, and
  so are their entries for the fields of the schema that was replaced.
\<close>

theorem schema_replacement_keeps_values_and_errors:
  assumes "formSchema (useEffect_jsonInput P V s) = Some new"
  shows "useEffect_jsonInput P V s = s\<lparr>formSchema := Some new, jsonError := None\<rparr>
    \<and> formData (useEffect_jsonInput P V s) = formData s
    \<and> formErrors (useEffect_jsonInput P V s) = formErrors s"
  using assms
  by (auto simp: useEffect_jsonInput_def split: if_splits sum.splits)


text \<open>
  The theorem in a form with the field \<^verbatim>\<open>old\<close>, a value and an error recorded for it, when
  the text of a schema without fields is entered: both entries are still there.
\<close>

theorem schema_replacement_keeps_values_and_errors_witness:
  "formSchema (useEffect_jsonInput JSON_parse_examples example_view
        ((form_with [plain_field ''old''] [(''old'', ''x'')])
           \<lparr>formErrors := [(''old'', ''Invalid format'')],
            jsonInput := ''{\"formTitle\": \"T\", \"fields\": []}''\<rparr>)) =
     Some \<lparr>formTitle = ''T'', formDescription = None, form_fields = []\<rparr>
   \<and> formData (useEffect_jsonInput JSON_parse_examples example_view
        ((form_with [plain_field ''old''] [(''old'', ''x'')])
           \<lparr>formErrors := [(''old'', ''Invalid format'')],
            jsonInput := ''{\"formTitle\": \"T\", \"fields\": []}''\<rparr>)) = [(''old'', ''x'')]
   \<and> formErrors (useEffect_jsonInput JSON_parse_examples example_view
        ((form_with [plain_field ''old''] [(''old'', ''x'')])
           \<lparr>formErrors := [(''old'', ''Invalid format'')],
            jsonInput := ''{\"formTitle\": \"T\", \"fields\": []}''\<rparr>)) =
       [(''old'', ''Invalid format'')]"
proof -
  have produced: "formSchema (useEffect_jsonInput JSON_parse_examples example_view
        ((form_with [plain_field ''old''] [(''old'', ''x'')])
           \<lparr>formErrors := [(''old'', ''Invalid format'')],
            jsonInput := ''{\"formTitle\": \"T\", \"fields\": []}''\<rparr>)) =
     Some \<lparr>formTitle = ''T'', formDescription = None, form_fields = []\<rparr>"
    by (simp add: useEffect_jsonInput_def trim_def is_white_space_def form_with_def
        initial_state_def parse_formTitle_text check_schema_def example_view_def)
  show ?thesis
    using schema_replacement_keeps_values_and_errors [OF produced] produced
    by (simp add: form_with_def initial_state_def)
qed

subsection \<open>Submission\<close>

text \<open>
  What \<open>handleSubmit\<close> decides on, when it does not throw and no field has an id among
  \<open>Object_prototype_names\<close>: the submission is given up exactly when some field of the
  schema is required and has an empty value.
\<close>

lemma handleSubmit_gate:
  assumes "handleSubmit R s = (s', outcome)" and "\<forall>t. outcome \<noteq> Uncaught t"
    and "field_ids_plain s"
  shows "outcome =
    (if \<exists>f\<in>set (case formSchema s of None \<Rightarrow> [] | Some schema \<Rightarrow> form_fields schema).
          required f = Some True
          \<and> (case map_of (formData s) (field_id f) of None \<Rightarrow> [] | Some x \<Rightarrow> x) = []
     then Aborted else Awaiting 1000 (formData s))"
proof (cases "forEach_field R
    (case formSchema s of None \<Rightarrow> [] | Some schema \<Rightarrow> form_fields schema)
    (s\<lparr>isSubmitting := True\<rparr>) []")
  case (Inl thrown_at)
  with assms show ?thesis
    by (cases thrown_at) (auto simp: handleSubmit_def)
next
  case (Inr looped)
  obtain s2 errs where looped: "looped = (s2, errs)" by (cases looped)
  let ?missing = "\<exists>f\<in>set (case formSchema s of None \<Rightarrow> [] | Some schema \<Rightarrow> form_fields schema).
        required f = Some True
        \<and> (case map_of (formData s) (field_id f) of None \<Rightarrow> [] | Some x \<Rightarrow> x) = []"
  have gate: "(errs = []) = (\<not> ?missing)"
    using forEach_field_newErrors [OF Inr [unfolded looped]] by simp
  show ?thesis
  proof (cases "errs = []")
    case True
    with gate have "\<not> ?missing" by blast
    then have "(if ?missing then Aborted else Awaiting 1000 (formData s)) =
        Awaiting 1000 (formData s)"
      by (rule if_not_P)
    moreover from assms(1) Inr looped True have "outcome = Awaiting 1000 (formData s)"
      by (simp add: handleSubmit_def)
    ultimately show ?thesis by (rule ssubst)
  next
    case False
    with gate have "?missing" by blast
    then have "(if ?missing then Aborted else Awaiting 1000 (formData s)) = Aborted"
      by (rule if_P)
    moreover from assms(1) Inr looped False have "outcome = Aborted"
      by (simp add: handleSubmit_def)
    ultimately show ?thesis by (rule ssubst)
  qed
qed

text \<open>
  The end-to-end example of the specification: a form with the required field \<^verbatim>\<open>n\<close>,
  submitted with no value and then with the value \<^verbatim>\<open>Alice\<close>.
\<close>

lemma submit_required_example:
  "handleSubmit RegExp_test_fragment (form_with [(plain_field ''n'')\<lparr>required := Some True\<rparr>] []) =
     ((form_with [(plain_field ''n'')\<lparr>required := Some True\<rparr>] [])
        \<lparr>formErrors := [(''n'', ''This field is required'')]\<rparr>, Aborted)
   \<and> handleSubmit RegExp_test_fragment
        (form_with [(plain_field ''n'')\<lparr>required := Some True\<rparr>] [(''n'', ''Alice'')]) =
     ((form_with [(plain_field ''n'')\<lparr>required := Some True\<rparr>] [(''n'', ''Alice'')])
        \<lparr>isSubmitting := True, formErrors := [(''n'', [])]\<rparr>, Awaiting 1000 [(''n'', ''Alice'')])"
  by (simp add: plain_field_def form_with_def initial_state_def handleSubmit_def
      validateField_def find_field_def validateField_error_def)

text \<open>
  Claim C1, evaluated where it fails. A form has one field \<^verbatim>\<open>n\<close> with \<^verbatim>\<open>minLength\<close> 3 and the
  value \<^verbatim>\<open>ab\<close>, so that the \<^verbatim>\<open>minLength\<close> rule is violated. \<open>handleSubmit\<close> records
  ``Minimum length is 3'' for the field and goes on to the \<^verbatim>\<open>await\<close> of line 123; after the
  timer the values are logged and \<^verbatim>\<open>isSubmitted\<close> is set. The submission is not blocked.
\<close>

theorem submit_not_blocked_by_minLength:
  "minLength_violated (no_rules\<lparr>minLength := Some 3\<rparr>) ''ab''
   \<and> handleSubmit RegExp_test_fragment
        (form_with [(plain_field ''n'')\<lparr>validation := Some (no_rules\<lparr>minLength := Some 3\<rparr>)\<rparr>]
           [(''n'', ''ab'')]) =
       ((form_with [(plain_field ''n'')\<lparr>validation := Some (no_rules\<lparr>minLength := Some 3\<rparr>)\<rparr>]
           [(''n'', ''ab'')])
          \<lparr>isSubmitting := True, formErrors := [(''n'', ''Minimum length is 3'')]\<rparr>,
        Awaiting 1000 [(''n'', ''ab'')])
   \<and> handleSubmit_resume [(''n'', ''ab'')]
        ((form_with [(plain_field ''n'')\<lparr>validation := Some (no_rules\<lparr>minLength := Some 3\<rparr>)\<rparr>]
           [(''n'', ''ab'')])
          \<lparr>isSubmitting := True, formErrors := [(''n'', ''Minimum length is 3'')]\<rparr>) =
       ((form_with [(plain_field ''n'')\<lparr>validation := Some (no_rules\<lparr>minLength := Some 3\<rparr>)\<rparr>]
           [(''n'', ''ab'')])
          \<lparr>isSubmitted := True, isSubmitting := False,
           formErrors := [(''n'', ''Minimum length is 3'')]\<rparr>,
        ''Form submitted:'', [(''n'', ''ab'')])"
  by (simp add: minLength_violated_def no_rules_def plain_field_def form_with_def
      initial_state_def handleSubmit_def handleSubmit_resume_def validateField_def
      find_field_def validateField_error_def pattern_rule_def minLength_rule_def
      maxLength_rule_def show_int_def)

end
